theory Spec2Isabelle
  imports Complex_Main "HOL-Library.Multiset"
begin

section \<open>Python values and exceptions\<close>

text \<open>
  The scripts under \<^verbatim>\<open>backend/\<close> submit URLs to the Google Indexing API.  The
  model covers \<^verbatim>\<open>send_url\<close> and \<^verbatim>\<open>indexURL\<close> of
  \<^verbatim>\<open>backend/indexing_script.py\<close>, the same two functions of its snapshot
  \<^verbatim>\<open>.history/backend/indexing_script_20251127145131.py\<close>, and
  \<^verbatim>\<open>send_single_url\<close> of
  \<^verbatim>\<open>.history/backend/single_url_script_20251127125542.py\<close>.

  Strings are lists of code points below 256.  The exceptions are the subclasses of
  \<^verbatim>\<open>Exception\<close> that the code names or that its operations raise.
\<close>

datatype exn =
    ServerDisconnectedError
  | TimeoutError
  | ClientError string
  | JSONDecodeError
  | KeyError string
  | TypeError

text \<open>
  A Python \<^verbatim>\<open>float\<close> by its exact value: a finite double is a rational number.
\<close>

datatype pyfloat = FloatVal rat | FloatInf | FloatNegInf | FloatNaN

text \<open>
  What \<^verbatim>\<open>json.loads\<close> returns.  A \<^verbatim>\<open>dict\<close> is an association list
  with \<^const>\<open>map_of\<close> as its lookup.
\<close>

datatype json =
    JNull
  | JBool bool
  | JInt int
  | JFloat pyfloat
  | JStr string
  | JArr "json list"
  | JObj "(string \<times> json) list"

text \<open>\<^verbatim>\<open>needle in haystack\<close> on two strings: a substring test.\<close>

fun str_contains :: "string \<Rightarrow> string \<Rightarrow> bool" where
  "str_contains needle [] = (needle = [])"
| "str_contains needle (c # cs) =
     (take (length needle) (c # cs) = needle \<or> str_contains needle cs)"

text \<open>
  \<^verbatim>\<open>key in data\<close> for a string \<^verbatim>\<open>key\<close>: key membership on a dict, element
  membership on a list, substring on a string, and \<^verbatim>\<open>TypeError\<close> on
  \<^verbatim>\<open>None\<close>, booleans and numbers, which are not iterable.
\<close>

fun py_contains :: "string \<Rightarrow> json \<Rightarrow> exn + bool" where
  "py_contains key (JObj d) = Inr (map_of d key \<noteq> None)"
| "py_contains key (JArr xs) = Inr (JStr key \<in> set xs)"
| "py_contains key (JStr s) = Inr (str_contains key s)"
| "py_contains key JNull = Inl TypeError"
| "py_contains key (JBool b) = Inl TypeError"
| "py_contains key (JInt n) = Inl TypeError"
| "py_contains key (JFloat f) = Inl TypeError"

text \<open>
  \<^verbatim>\<open>data[key]\<close> for a string \<^verbatim>\<open>key\<close>: \<^verbatim>\<open>KeyError\<close> on a dict without the
  key, \<^verbatim>\<open>TypeError\<close> on every other value (a list and a string take integer
  indices, the rest is not subscriptable).
\<close>

fun py_getitem :: "json \<Rightarrow> string \<Rightarrow> exn + json" where
  "py_getitem (JObj d) key =
     (case map_of d key of None \<Rightarrow> Inl (KeyError key) | Some v \<Rightarrow> Inr v)"
| "py_getitem (JArr xs) key = Inl TypeError"
| "py_getitem (JStr s) key = Inl TypeError"
| "py_getitem JNull key = Inl TypeError"
| "py_getitem (JBool b) key = Inl TypeError"
| "py_getitem (JInt n) key = Inl TypeError"
| "py_getitem (JFloat f) key = Inl TypeError"

text \<open>
  \<^verbatim>\<open>value == n\<close> for an integer \<^verbatim>\<open>n\<close>: numbers compare by value,
  \<^verbatim>\<open>True\<close> is 1 and \<^verbatim>\<open>False\<close> is 0, every other value is unequal.
\<close>

fun py_eq_int :: "json \<Rightarrow> int \<Rightarrow> bool" where
  "py_eq_int (JInt m) n = (m = n)"
| "py_eq_int (JFloat (FloatVal r)) n = (r = of_int n)"
| "py_eq_int (JFloat f) n = False"
| "py_eq_int (JBool b) n = ((if b then 1 else 0) = n)"
| "py_eq_int JNull n = False"
| "py_eq_int (JStr s) n = False"
| "py_eq_int (JArr xs) n = False"
| "py_eq_int (JObj d) n = False"

text \<open>
  \<^verbatim>\<open>str.strip()\<close>: the characters with \<^verbatim>\<open>isspace()\<close> among the code points
  below 256 are 9 to 13, 28 to 32, 133 and 160.
\<close>

definition py_isspace :: "char \<Rightarrow> bool" where
  "py_isspace c =
     (let n = (of_char c :: nat)
      in (9 \<le> n \<and> n \<le> 13) \<or> (28 \<le> n \<and> n \<le> 32) \<or> n = 133 \<or> n = 160)"

definition strip :: "string \<Rightarrow> string" where
  "strip s = rev (dropWhile py_isspace (rev (dropWhile py_isspace s)))"

section \<open>A decoder for concrete response bodies\<close>

text \<open>
  \<^verbatim>\<open>json.loads\<close> is the standard library's decoder; the functions below take it as
  the parameter \<open>loads\<close>, so every theorem about them holds for the library's decoder.
  To evaluate them on concrete bodies, \<open>decode_json\<close> decodes the JSON texts built
  from objects, arrays, strings without escapes, integers, \<^verbatim>\<open>true\<close>,
  \<^verbatim>\<open>false\<close> and \<^verbatim>\<open>null\<close>, as \<^verbatim>\<open>json.loads\<close> does: a repeated key
  keeps its last value.  It rejects a text with an escape, a fraction, an exponent,
  \<^verbatim>\<open>NaN\<close> or \<^verbatim>\<open>Infinity\<close>, which \<^verbatim>\<open>json.loads\<close> accepts, so
  it is applied to no such text.
\<close>

definition is_json_ws :: "char \<Rightarrow> bool" where
  "is_json_ws c = (c = CHR '' '' \<or> c = CHR 0x09 \<or> c = CHR 0x0A \<or> c = CHR 0x0D)"

definition skip_ws :: "string \<Rightarrow> string" where
  "skip_ws cs = dropWhile is_json_ws cs"

definition is_digit :: "char \<Rightarrow> bool" where
  "is_digit c = (48 \<le> (of_char c :: nat) \<and> (of_char c :: nat) \<le> 57)"

definition digit_val :: "char \<Rightarrow> int" where
  "digit_val c = int (of_char c) - 48"

text \<open>The characters of a string up to its closing quote.\<close>

fun parse_chars :: "string \<Rightarrow> (string \<times> string) option" where
  "parse_chars [] = None"
| "parse_chars (c # cs) =
     (if c = CHR 0x22 then Some ([], cs)
      else if c = CHR 0x5C \<or> (of_char c :: nat) < 32 then None
      else (case parse_chars cs of
              None \<Rightarrow> None
            | Some (s, rest) \<Rightarrow> Some (c # s, rest)))"

definition digits_value :: "string \<Rightarrow> int" where
  "digits_value ds = foldl (\<lambda>acc c. 10 * acc + digit_val c) 0 ds"

text \<open>
  An integer: an optional minus sign, then \<^verbatim>\<open>0\<close> or a digit sequence that does
  not start with \<^verbatim>\<open>0\<close>.
\<close>

definition parse_nat_lit :: "string \<Rightarrow> (int \<times> string) option" where
  "parse_nat_lit cs =
     (let ds = takeWhile is_digit cs; rest = dropWhile is_digit cs
      in if ds = [] then None
         else if rest \<noteq> [] \<and> hd rest \<in> {CHR ''.'', CHR ''e'', CHR ''E''} then None
         else if hd ds = CHR ''0'' then Some (0, tl ds @ rest)
         else Some (digits_value ds, rest))"

definition parse_int_lit :: "string \<Rightarrow> (int \<times> string) option" where
  "parse_int_lit cs =
     (case cs of
        [] \<Rightarrow> None
      | c # rest \<Rightarrow>
          if c = CHR ''-'' then
            (case parse_nat_lit rest of None \<Rightarrow> None | Some (n, r) \<Rightarrow> Some (- n, r))
          else parse_nat_lit cs)"

text \<open>\<^verbatim>\<open>d[k] = v\<close> on a dict: a present key keeps its place and takes the value.\<close>

fun dict_set :: "(string \<times> json) list \<Rightarrow> string \<Rightarrow> json \<Rightarrow> (string \<times> json) list" where
  "dict_set [] k v = [(k, v)]"
| "dict_set ((k', v') # d) k v = (if k' = k then (k, v) # d else (k', v') # dict_set d k v)"

text \<open>
  The fuel bounds the number of nested calls; each call consumes a character, so the
  length of the text is enough.
\<close>

fun parse_value :: "nat \<Rightarrow> string \<Rightarrow> (json \<times> string) option"
  and parse_elements :: "nat \<Rightarrow> json list \<Rightarrow> string \<Rightarrow> (json \<times> string) option"
  and parse_members :: "nat \<Rightarrow> (string \<times> json) list \<Rightarrow> string \<Rightarrow> (json \<times> string) option"
where
  "parse_value 0 cs = None"
| "parse_value (Suc n) cs =
     (case cs of
        [] \<Rightarrow> None
      | c # rest \<Rightarrow>
          if c = CHR ''{'' then
            (case skip_ws rest of
               [] \<Rightarrow> None
             | c' # rest' \<Rightarrow>
                 if c' = CHR ''}'' then Some (JObj [], rest')
                 else parse_members n [] (c' # rest'))
          else if c = CHR ''['' then
            (case skip_ws rest of
               [] \<Rightarrow> None
             | c' # rest' \<Rightarrow>
                 if c' = CHR '']'' then Some (JArr [], rest')
                 else parse_elements n [] (c' # rest'))
          else if c = CHR 0x22 then
            (case parse_chars rest of
               None \<Rightarrow> None
             | Some (s, r) \<Rightarrow> Some (JStr s, r))
          else if take 4 cs = ''null'' then Some (JNull, drop 4 cs)
          else if take 4 cs = ''true'' then Some (JBool True, drop 4 cs)
          else if take 5 cs = ''false'' then Some (JBool False, drop 5 cs)
          else (case parse_int_lit cs of
                  None \<Rightarrow> None
                | Some (i, r) \<Rightarrow> Some (JInt i, r)))"
| "parse_elements 0 acc cs = None"
| "parse_elements (Suc n) acc cs =
     (case parse_value n cs of
        None \<Rightarrow> None
      | Some (v, r) \<Rightarrow>
          (case skip_ws r of
             [] \<Rightarrow> None
           | c # rest \<Rightarrow>
               if c = CHR '']'' then Some (JArr (acc @ [v]), rest)
               else if c = CHR '','' then parse_elements n (acc @ [v]) (skip_ws rest)
               else None))"
| "parse_members 0 acc cs = None"
| "parse_members (Suc n) acc cs =
     (case cs of
        [] \<Rightarrow> None
      | q # after_quote \<Rightarrow>
          if q \<noteq> CHR 0x22 then None
          else
            (case parse_chars after_quote of
               None \<Rightarrow> None
             | Some (k, r) \<Rightarrow>
                 (case skip_ws r of
                    [] \<Rightarrow> None
                  | colon # r' \<Rightarrow>
                      if colon \<noteq> CHR '':'' then None
                      else
                        (case parse_value n (skip_ws r') of
                           None \<Rightarrow> None
                         | Some (v, r'') \<Rightarrow>
                             (case skip_ws r'' of
                                [] \<Rightarrow> None
                              | c # rest \<Rightarrow>
                                  if c = CHR ''}'' then Some (JObj (dict_set acc k v), rest)
                                  else if c = CHR '','' then
                                    parse_members n (dict_set acc k v) (skip_ws rest)
                                  else None)))))"

definition decode_json :: "string \<Rightarrow> exn + json" where
  "decode_json s =
     (case parse_value (Suc (length s)) (skip_ws s) of
        None \<Rightarrow> Inl JSONDecodeError
      | Some (v, rest) \<Rightarrow> if skip_ws rest = [] then Inr v else Inl JSONDecodeError)"

section \<open>The network session\<close>

text \<open>
  The keyword arguments of one \<^verbatim>\<open>session.post\<close> call.  \<open>timeout\<close> is
  \<open>None\<close> when the call passes none, and \<open>Some n\<close> for
  \<^verbatim>\<open>timeout=aiohttp.ClientTimeout(total=n)\<close>.
\<close>

record request =
  endpoint :: string
  json_content :: "(string \<times> string) list"
  headers :: "(string \<times> string) list"
  ssl :: bool
  timeout :: "nat option"

text \<open>
  What one \<^verbatim>\<open>async with session.post(...) as response: ... await response.text()\<close>
  does: it yields the text of the response body or raises.
\<close>

datatype reply = Response string | Raises exn

text \<open>
  The effects of a submission, in order: a request sent, \<^verbatim>\<open>asyncio.sleep(n)\<close>
  awaited.
\<close>

datatype event = Post request | Sleep nat

text \<open>
  The session answers the \<open>k\<close>-th request of one submission (counted from 0) with
  \<open>session req k\<close>.
\<close>

type_synonym session = "request \<Rightarrow> nat \<Rightarrow> reply"

definition posts :: "event list \<Rightarrow> request list" where
  "posts evs = concat (map (\<lambda>e. case e of Post r \<Rightarrow> [r] | Sleep n \<Rightarrow> []) evs)"

definition sleeps :: "event list \<Rightarrow> nat list" where
  "sleeps evs = concat (map (\<lambda>e. case e of Post r \<Rightarrow> [] | Sleep n \<Rightarrow> [n]) evs)"

definition ENDPOINT :: string where
  "ENDPOINT = ''https://indexing.googleapis.com/v3/urlNotifications:publish''"

section \<open>\<^verbatim>\<open>backend/indexing_script.py\<close>\<close>

definition DISCONNECTED_BODY :: string where
  \<open>DISCONNECTED_BODY = ''{"error": {"code": 500, "message": "Server Disconnected"}}''\<close>

definition post_request :: "string \<Rightarrow> string \<Rightarrow> request" where
  "post_request http url =
     \<lparr> endpoint = ENDPOINT,
       json_content = [(''url'', strip url), (''type'', ''URL_UPDATED'')],
       headers = [(''Authorization'', ''Bearer '' @ http)],
       ssl = False,
       timeout = None \<rparr>"

text \<open>
  The loop \<^verbatim>\<open>for _ in range(3)\<close> of \<^verbatim>\<open>send_url\<close> over the attempts that
  remain: a response is returned as it is, \<^verbatim>\<open>ServerDisconnectedError\<close> is
  followed by a sleep of 2 seconds and the next attempt, no other exception is caught.
  When the range is exhausted the function returns its own error body.
\<close>

fun send_url_attempts :: "session \<Rightarrow> request \<Rightarrow> nat list \<Rightarrow> event list \<times> (exn + string)" where
  "send_url_attempts session req [] = ([], Inr DISCONNECTED_BODY)"
| "send_url_attempts session req (a # as) =
     (case session req a of
        Response text \<Rightarrow> ([Post req], Inr text)
      | Raises e \<Rightarrow>
          if e = ServerDisconnectedError then
            (case send_url_attempts session req as of
               (evs, r) \<Rightarrow> (Post req # Sleep 2 # evs, r))
          else ([Post req], Inl e))"

definition send_url :: "session \<Rightarrow> string \<Rightarrow> string \<Rightarrow> event list \<times> (exn + string)" where
  "send_url session http url = send_url_attempts session (post_request http url) [0..<3]"

text \<open>
  The summary \<^verbatim>\<open>indexURL\<close> prints: \<open>total\<close> is the \<^verbatim>\<open>len(urls)\<close> of
  \<^verbatim>\<open>Processing {len(urls)} URLs...\<close>, the other fields are the three counters of
  the \<^verbatim>\<open>Completed\<close> line.
\<close>

record tally =
  total :: nat
  successful_urls :: nat
  error_429_count :: nat
  other_errors_count :: nat

text \<open>
  The body of \<^verbatim>\<open>for result in results\<close>.  Nothing is caught: an exception of
  \<^verbatim>\<open>json.loads\<close>, of \<^verbatim>\<open>"error" in data\<close> or of
  \<^verbatim>\<open>data["error"]["code"]\<close> leaves the loop.
\<close>

definition count_result :: "(string \<Rightarrow> exn + json) \<Rightarrow> tally \<Rightarrow> string \<Rightarrow> exn + tally" where
  "count_result loads t result =
     (case loads result of
        Inl e \<Rightarrow> Inl e
      | Inr data \<Rightarrow>
          (case py_contains ''error'' data of
             Inl e \<Rightarrow> Inl e
           | Inr has_error \<Rightarrow>
               if has_error then
                 (case py_getitem data ''error'' of
                    Inl e \<Rightarrow> Inl e
                  | Inr err \<Rightarrow>
                      (case py_getitem err ''code'' of
                         Inl e \<Rightarrow> Inl e
                       | Inr code \<Rightarrow>
                           if py_eq_int code 429
                           then Inr (t\<lparr>error_429_count := error_429_count t + 1\<rparr>)
                           else Inr (t\<lparr>other_errors_count := other_errors_count t + 1\<rparr>)))
               else Inr (t\<lparr>successful_urls := successful_urls t + 1\<rparr>)))"

fun count_results :: "(string \<Rightarrow> exn + json) \<Rightarrow> tally \<Rightarrow> string list \<Rightarrow> exn + tally" where
  "count_results loads t [] = Inr t"
| "count_results loads t (result # results) =
     (case count_result loads t result of
        Inl e \<Rightarrow> Inl e
      | Inr t' \<Rightarrow> count_results loads t' results)"

text \<open>
  \<^verbatim>\<open>await asyncio.gather(*tasks)\<close>: the results in the order of the tasks, or an
  exception when a task raised one.  With several failing tasks the library propagates
  the one raised first in time; the model takes the first in task order.
\<close>

fun gather :: "(exn + 'a) list \<Rightarrow> exn + 'a list" where
  "gather [] = Inr []"
| "gather (Inl e # rs) = Inl e"
| "gather (Inr x # rs) = (case gather rs of Inl e \<Rightarrow> Inl e | Inr xs \<Rightarrow> Inr (x # xs))"

text \<open>
  \<^verbatim>\<open>indexURL\<close>: one task per URL, all on one session; \<open>net i\<close> answers the
  requests of the \<open>i\<close>-th task.  The result is the list of the tasks' effects, and
  the printed summary or the exception that leaves the function.  When a task raises,
  the closing session may cut the other tasks short; the model lists the effects of
  their complete runs.
\<close>

definition indexURL ::
  "(string \<Rightarrow> exn + json) \<Rightarrow> (nat \<Rightarrow> session) \<Rightarrow> string \<Rightarrow> string list
     \<Rightarrow> event list list \<times> (exn + tally)" where
  "indexURL loads net http urls =
     (let t0 = \<lparr> total = length urls, successful_urls = 0, error_429_count = 0,
                 other_errors_count = 0 \<rparr>;
          tasks = map (\<lambda>(i, url). send_url (net i) http url) (enumerate 0 urls)
      in (map fst tasks,
          case gather (map snd tasks) of
            Inl e \<Rightarrow> Inl e
          | Inr results \<Rightarrow> count_results loads t0 results))"

section \<open>\<^verbatim>\<open>.history/backend/indexing_script_20251127145131.py\<close>\<close>

definition DISCONNECTED_BODY_145131 :: string where
  \<open>DISCONNECTED_BODY_145131 =
     ''{"error": {"code": 500, "message": "Server Disconnected after multiple retries"}}''\<close>

definition post_request_145131 :: "string \<Rightarrow> string \<Rightarrow> request" where
  "post_request_145131 http url =
     \<lparr> endpoint = ENDPOINT,
       json_content = [(''url'', strip url), (''type'', ''URL_UPDATED'')],
       headers = [(''Authorization'', ''Bearer '' @ http)],
       ssl = False,
       timeout = Some 30 \<rparr>"

text \<open>
  The loop \<^verbatim>\<open>for attempt in range(3)\<close> of this snapshot's \<^verbatim>\<open>send_url\<close>:
  after \<^verbatim>\<open>ServerDisconnectedError\<close> it sleeps 2 seconds when
  \<^verbatim>\<open>attempt < 2\<close> and continues; any other exception is caught, printed and
  ends the loop (\<^verbatim>\<open>break\<close>).  After the loop it returns its error body.
\<close>

fun send_url_attempts_145131 ::
  "session \<Rightarrow> request \<Rightarrow> nat list \<Rightarrow> event list \<times> (exn + string)" where
  "send_url_attempts_145131 session req [] = ([], Inr DISCONNECTED_BODY_145131)"
| "send_url_attempts_145131 session req (attempt # as) =
     (case session req attempt of
        Response text \<Rightarrow> ([Post req], Inr text)
      | Raises e \<Rightarrow>
          if e = ServerDisconnectedError then
            (case send_url_attempts_145131 session req as of
               (evs, r) \<Rightarrow> (Post req # (if attempt < 2 then [Sleep 2] else []) @ evs, r))
          else ([Post req], Inr DISCONNECTED_BODY_145131))"

definition send_url_145131 :: "session \<Rightarrow> string \<Rightarrow> string \<Rightarrow> event list \<times> (exn + string)" where
  "send_url_145131 session http url =
     send_url_attempts_145131 session (post_request_145131 http url) [0..<3]"

text \<open>
  The loop body of this snapshot's \<^verbatim>\<open>indexURL\<close> is the one above inside
  \<^verbatim>\<open>try: ... except json.JSONDecodeError: other_errors_count += 1\<close>.
\<close>

definition count_result_145131 ::
  "(string \<Rightarrow> exn + json) \<Rightarrow> tally \<Rightarrow> string \<Rightarrow> exn + tally" where
  "count_result_145131 loads t result =
     (case count_result loads t result of
        Inl e \<Rightarrow>
          if e = JSONDecodeError
          then Inr (t\<lparr>other_errors_count := other_errors_count t + 1\<rparr>)
          else Inl e
      | Inr t' \<Rightarrow> Inr t')"

fun count_results_145131 ::
  "(string \<Rightarrow> exn + json) \<Rightarrow> tally \<Rightarrow> string list \<Rightarrow> exn + tally" where
  "count_results_145131 loads t [] = Inr t"
| "count_results_145131 loads t (result # results) =
     (case count_result_145131 loads t result of
        Inl e \<Rightarrow> Inl e
      | Inr t' \<Rightarrow> count_results_145131 loads t' results)"

text \<open>
  This snapshot returns its three counters; \<open>total\<close> is the \<^verbatim>\<open>len(urls)\<close> it
  prints.
\<close>

definition indexURL_145131 ::
  "(string \<Rightarrow> exn + json) \<Rightarrow> (nat \<Rightarrow> session) \<Rightarrow> string \<Rightarrow> string list
     \<Rightarrow> event list list \<times> (exn + tally)" where
  "indexURL_145131 loads net http urls =
     (let t0 = \<lparr> total = length urls, successful_urls = 0, error_429_count = 0,
                 other_errors_count = 0 \<rparr>;
          tasks = map (\<lambda>(i, url). send_url_145131 (net i) http url) (enumerate 0 urls)
      in (map fst tasks,
          case gather (map snd tasks) of
            Inl e \<Rightarrow> Inl e
          | Inr results \<Rightarrow> count_results_145131 loads t0 results))"

section \<open>\<^verbatim>\<open>.history/backend/single_url_script_20251127125542.py\<close>\<close>

definition post_request_single :: "string \<Rightarrow> string \<Rightarrow> request" where
  "post_request_single http url =
     \<lparr> endpoint = ENDPOINT,
       json_content = [(''url'', strip url), (''type'', ''URL_UPDATED'')],
       headers = [(''Authorization'', ''Bearer '' @ http)],
       ssl = False,
       timeout = None \<rparr>"

text \<open>
  The statements of \<^verbatim>\<open>send_single_url\<close> inside \<^verbatim>\<open>async with\<close>, on the
  text of the response in attempt \<open>attempt\<close>: the sleeps they await, and whether they
  reach \<^verbatim>\<open>return True\<close>; or the exception they raise.
\<close>

definition single_response ::
  "(string \<Rightarrow> exn + json) \<Rightarrow> nat \<Rightarrow> string \<Rightarrow> exn + (event list \<times> bool)" where
  "single_response loads attempt response_text =
     (case loads response_text of
        Inl e \<Rightarrow> Inl e
      | Inr data \<Rightarrow>
          (case py_contains ''error'' data of
             Inl e \<Rightarrow> Inl e
           | Inr has_error \<Rightarrow>
               if has_error then
                 (case py_getitem data ''error'' of
                    Inl e \<Rightarrow> Inl e
                  | Inr err \<Rightarrow>
                      (case py_getitem err ''message'' of
                         Inl e \<Rightarrow> Inl e
                       | Inr error_msg \<Rightarrow>
                           (case py_getitem err ''code'' of
                              Inl e \<Rightarrow> Inl e
                            | Inr code \<Rightarrow>
                                if py_eq_int code 429
                                then Inr ([Sleep ((attempt + 1) * 5)], False)
                                else Inr (if attempt < 2 then [Sleep 2] else [], False))))
               else Inr ([], True)))"

text \<open>
  The three handlers: \<^verbatim>\<open>ServerDisconnectedError\<close> sleeps
  \<^verbatim>\<open>(attempt + 1) * 2\<close> seconds, \<^verbatim>\<open>json.JSONDecodeError\<close> and every other
  \<^verbatim>\<open>Exception\<close> sleep 2 seconds, each only when \<^verbatim>\<open>attempt < 2\<close>; all
  continue with the next attempt.
\<close>

definition single_handler :: "nat \<Rightarrow> exn \<Rightarrow> event list" where
  "single_handler attempt e =
     (if e = ServerDisconnectedError then
        (if attempt < 2 then [Sleep ((attempt + 1) * 2)] else [])
      else if e = JSONDecodeError then
        (if attempt < 2 then [Sleep 2] else [])
      else
        (if attempt < 2 then [Sleep 2] else []))"

fun send_single_url_attempts ::
  "(string \<Rightarrow> exn + json) \<Rightarrow> session \<Rightarrow> request \<Rightarrow> nat list \<Rightarrow> event list \<times> bool" where
  "send_single_url_attempts loads session req [] = ([], False)"
| "send_single_url_attempts loads session req (attempt # as) =
     (case (case session req attempt of
              Raises e \<Rightarrow> Inl e
            | Response response_text \<Rightarrow> single_response loads attempt response_text) of
        Inr (evs, True) \<Rightarrow> (Post req # evs, True)
      | Inr (evs, False) \<Rightarrow>
          (case send_single_url_attempts loads session req as of
             (evs', r) \<Rightarrow> (Post req # evs @ evs', r))
      | Inl e \<Rightarrow>
          (case send_single_url_attempts loads session req as of
             (evs', r) \<Rightarrow> (Post req # single_handler attempt e @ evs', r)))"

definition send_single_url ::
  "(string \<Rightarrow> exn + json) \<Rightarrow> session \<Rightarrow> string \<Rightarrow> string \<Rightarrow> event list \<times> bool" where
  "send_single_url loads session http url =
     send_single_url_attempts loads session (post_request_single http url) [0..<3]"

section \<open>Outcomes\<close>

text \<open>
  The three classifications of a result, and the counter each one increments.  The
  scripts have no such type: \<open>classify\<close> is the loop body of \<^verbatim>\<open>indexURL\<close> read
  as a function to an outcome, and \<open>count_result_classify\<close> below shows that the loop
  body is \<open>classify\<close> followed by \<open>record_outcome\<close>.
\<close>

datatype outcome = Success | RateLimited | Failed

definition record_outcome :: "tally \<Rightarrow> outcome \<Rightarrow> tally" where
  "record_outcome t oc =
     (case oc of
        Success \<Rightarrow> t\<lparr>successful_urls := successful_urls t + 1\<rparr>
      | RateLimited \<Rightarrow> t\<lparr>error_429_count := error_429_count t + 1\<rparr>
      | Failed \<Rightarrow> t\<lparr>other_errors_count := other_errors_count t + 1\<rparr>)"

definition classify :: "(string \<Rightarrow> exn + json) \<Rightarrow> string \<Rightarrow> exn + outcome" where
  "classify loads result =
     (case loads result of
        Inl e \<Rightarrow> Inl e
      | Inr data \<Rightarrow>
          (case py_contains ''error'' data of
             Inl e \<Rightarrow> Inl e
           | Inr has_error \<Rightarrow>
               if has_error then
                 (case py_getitem data ''error'' of
                    Inl e \<Rightarrow> Inl e
                  | Inr err \<Rightarrow>
                      (case py_getitem err ''code'' of
                         Inl e \<Rightarrow> Inl e
                       | Inr code \<Rightarrow> if py_eq_int code 429 then Inr RateLimited else Inr Failed))
               else Inr Success))"

definition count_outcome :: "(string \<Rightarrow> exn + json) \<Rightarrow> outcome \<Rightarrow> string list \<Rightarrow> nat" where
  "count_outcome loads oc results = length (filter (\<lambda>r. classify loads r = Inr oc) results)"

text \<open>The tally after the loop over \<open>results\<close>, when no result raises.\<close>

definition add_counts :: "(string \<Rightarrow> exn + json) \<Rightarrow> tally \<Rightarrow> string list \<Rightarrow> tally" where
  "add_counts loads t results =
     t\<lparr> successful_urls := successful_urls t + count_outcome loads Success results,
        error_429_count := error_429_count t + count_outcome loads RateLimited results,
        other_errors_count := other_errors_count t + count_outcome loads Failed results \<rparr>"

section \<open>Concrete bodies, sessions and URLs\<close>

definition success_response :: string where
  \<open>success_response = ''{"urlNotificationMetadata": {"url": "https://a.example/p1"}}''\<close>

definition rate_limited_response :: string where
  \<open>rate_limited_response = ''{"error": {"code": 429, "message": "x"}}''\<close>

definition denied_response :: string where
  \<open>denied_response = ''{"error": {"code": 403, "message": "denied"}}''\<close>

definition server_error_response :: string where
  \<open>server_error_response = ''{"error": {"code": 500, "message": "Internal error"}}''\<close>

definition error_without_code :: string where
  \<open>error_without_code = ''{"error": {"message": "quota"}}''\<close>

definition not_json :: string where
  "not_json = ''not json''"

definition url_p1 :: string where
  "url_p1 = ''https://a.example/p1''"

definition url_p2 :: string where
  "url_p2 = ''https://a.example/p2''"

definition token :: string where
  "token = ''tok''"

definition zero_tally :: "nat \<Rightarrow> tally" where
  "zero_tally n =
     \<lparr> total = n, successful_urls = 0, error_429_count = 0, other_errors_count = 0 \<rparr>"

text \<open>A session that answers every request with the same reply.\<close>

definition always :: "reply \<Rightarrow> session" where
  "always r = (\<lambda>req k. r)"

text \<open>A session that disconnects \<open>n\<close> times and then answers with \<open>r\<close>.\<close>

definition disconnecting :: "nat \<Rightarrow> reply \<Rightarrow> session" where
  "disconnecting n r = (\<lambda>req k. if k < n then Raises ServerDisconnectedError else r)"

text \<open>Two batches of two tasks: the argument is the index of the task.\<close>

definition ok_then_not_json :: "nat \<Rightarrow> session" where
  "ok_then_not_json i =
     (if i = 0 then always (Response success_response) else always (Response not_json))"

definition ok_then_denied :: "nat \<Rightarrow> session" where
  "ok_then_denied i =
     (if i = 0 then always (Response success_response) else always (Response denied_response))"

definition ok_then_disconnected :: "nat \<Rightarrow> session" where
  "ok_then_disconnected i =
     (if i = 0 then always (Response success_response)
      else always (Raises ServerDisconnectedError))"

definition timeout_then_ok :: "nat \<Rightarrow> session" where
  "timeout_then_ok i =
     (if i = 0 then always (Raises TimeoutError) else always (Response success_response))"

definition url_p1_padded :: string where
  "url_p1_padded = ''  https://a.example/p1 ''"

section \<open>Properties of the aggregation\<close>

lemma range_3: "[0..<3] = [0, 1, 2]"
  by (simp add: upt_rec)

lemma count_result_classify:
  "count_result loads t result =
     (case classify loads result of Inl e \<Rightarrow> Inl e | Inr oc \<Rightarrow> Inr (record_outcome t oc))"
  by (simp add: count_result_def classify_def record_outcome_def split: sum.splits)

lemma record_outcome_total: "total (record_outcome t oc) = total t"
  by (cases oc) (simp_all add: record_outcome_def)

lemma record_outcome_sum:
  "successful_urls (record_outcome t oc) + error_429_count (record_outcome t oc)
     + other_errors_count (record_outcome t oc)
   = successful_urls t + error_429_count t + other_errors_count t + 1"
  by (cases oc) (simp_all add: record_outcome_def)

lemma record_outcome_inj: "record_outcome t a = record_outcome t b \<Longrightarrow> a = b"
proof -
  assume eq: "record_outcome t a = record_outcome t b"
  then have "successful_urls (record_outcome t a) = successful_urls (record_outcome t b)"
    and "error_429_count (record_outcome t a) = error_429_count (record_outcome t b)"
    by simp_all
  then show "a = b"
    by (cases a; cases b; simp add: record_outcome_def)
qed

text \<open>
  Every result the loop gets through adds one to exactly one counter, so a completed
  loop adds the number of results to the sum of the counters.
\<close>

lemma count_results_sum:
  "count_results loads t results = Inr t' \<Longrightarrow>
     total t' = total t \<and>
     successful_urls t' + error_429_count t' + other_errors_count t'
       = successful_urls t + error_429_count t + other_errors_count t + length results"
proof (induction results arbitrary: t)
  case Nil
  then show ?case by simp
next
  case (Cons r rs)
  from Cons.prems obtain oc where oc: "classify loads r = Inr oc"
    and rest: "count_results loads (record_outcome t oc) rs = Inr t'"
    by (auto simp: count_result_classify split: sum.splits)
  from Cons.IH[OF rest] show ?case
    by (simp add: record_outcome_total record_outcome_sum)
qed

lemma gather_length: "gather rs = Inr xs \<Longrightarrow> length xs = length rs"
proof (induction rs arbitrary: xs rule: gather.induct)
  case 1
  then show ?case by simp
next
  case (2 e rs)
  then show ?case by simp
next
  case (3 x rs)
  then show ?case by (auto split: sum.splits)
qed

text \<open>
  When \<^verbatim>\<open>indexURL\<close> of \<^verbatim>\<open>backend/indexing_script.py\<close> reaches its summary,
  the total is the number of URLs and the three counters add up to it.
\<close>

lemma indexURL_tally_sum:
  assumes "snd (indexURL loads net http urls) = Inr t"
  shows "total t = length urls \<and>
         successful_urls t + error_429_count t + other_errors_count t = total t"
proof -
  let ?tasks = "map (\<lambda>(i, url). send_url (net i) http url) (enumerate 0 urls)"
  let ?t0 = "\<lparr> total = length urls, successful_urls = 0, error_429_count = 0,
                 other_errors_count = 0 \<rparr>"
  from assms obtain results where g: "gather (map snd ?tasks) = Inr results"
    and c: "count_results loads ?t0 results = Inr t"
    by (auto simp: indexURL_def Let_def split: sum.splits)
  from gather_length[OF g] have "length results = length urls" by simp
  with count_results_sum[OF c] show ?thesis by simp
qed

lemma count_results_iff:
  "count_results loads t results = Inr t' \<longleftrightarrow>
     (\<forall>r \<in> set results. \<exists>oc. classify loads r = Inr oc) \<and> t' = add_counts loads t results"
proof (induction results arbitrary: t)
  case Nil
  then show ?case by (auto simp: add_counts_def count_outcome_def)
next
  case (Cons r rs)
  show ?case
  proof (cases "classify loads r")
    case (Inl e)
    then show ?thesis by (simp add: count_result_classify)
  next
    case (Inr oc)
    have "add_counts loads (record_outcome t oc) rs = add_counts loads t (r # rs)"
      using Inr by (cases oc) (simp_all add: add_counts_def count_outcome_def record_outcome_def)
    then show ?thesis using Inr Cons.IH[of "record_outcome t oc"]
      by (simp add: count_result_classify)
  qed
qed

lemma count_outcome_mset:
  assumes "mset ys = mset xs"
  shows "count_outcome loads oc ys = count_outcome loads oc xs"
proof -
  from assms have "mset (filter (\<lambda>r. classify loads r = Inr oc) ys)
      = mset (filter (\<lambda>r. classify loads r = Inr oc) xs)"
    by simp
  then show ?thesis unfolding count_outcome_def by (rule mset_eq_length)
qed

section \<open>The empty batch\<close>

text \<open>
  C8: for an empty list of URLs \<^verbatim>\<open>indexURL\<close> sends no request (no task has any
  effect), raises nothing and reports the zero tally: total 0, successful 0, rate
  limited 0, failed 0.
\<close>

theorem indexURL_empty:
  "indexURL loads net http [] =
     ([], Inr \<lparr> total = 0, successful_urls = 0, error_429_count = 0, other_errors_count = 0 \<rparr>)"
  by (simp add: indexURL_def)

section \<open>Decoding the concrete bodies\<close>

lemma decode_success:
  "decode_json success_response =
     Inr (JObj [(''urlNotificationMetadata'', JObj [(''url'', JStr ''https://a.example/p1'')])])"
  unfolding success_response_def by code_simp

lemma decode_rate_limited:
  "decode_json rate_limited_response =
     Inr (JObj [(''error'', JObj [(''code'', JInt 429), (''message'', JStr ''x'')])])"
  unfolding rate_limited_response_def by code_simp

lemma decode_denied:
  "decode_json denied_response =
     Inr (JObj [(''error'', JObj [(''code'', JInt 403), (''message'', JStr ''denied'')])])"
  unfolding denied_response_def by code_simp

lemma decode_server_error:
  "decode_json server_error_response =
     Inr (JObj [(''error'', JObj [(''code'', JInt 500), (''message'', JStr ''Internal error'')])])"
  unfolding server_error_response_def by code_simp

lemma decode_disconnected:
  "decode_json DISCONNECTED_BODY =
     Inr (JObj [(''error'', JObj [(''code'', JInt 500),
                                  (''message'', JStr ''Server Disconnected'')])])"
  unfolding DISCONNECTED_BODY_def by code_simp

lemma decode_disconnected_145131:
  "decode_json DISCONNECTED_BODY_145131 =
     Inr (JObj [(''error'', JObj [(''code'', JInt 500),
                                  (''message'', JStr ''Server Disconnected after multiple retries'')])])"
  unfolding DISCONNECTED_BODY_145131_def by code_simp

lemma decode_error_without_code:
  "decode_json error_without_code = Inr (JObj [(''error'', JObj [(''message'', JStr ''quota'')])])"
  unfolding error_without_code_def by code_simp

lemma decode_not_json: "decode_json not_json = Inl JSONDecodeError"
  unfolding not_json_def by code_simp

lemma classify_success: "classify decode_json success_response = Inr Success"
  by (simp add: classify_def decode_success)

lemma classify_rate_limited: "classify decode_json rate_limited_response = Inr RateLimited"
  by (simp add: classify_def decode_rate_limited)

lemma classify_denied: "classify decode_json denied_response = Inr Failed"
  by (simp add: classify_def decode_denied)

lemma classify_disconnected: "classify decode_json DISCONNECTED_BODY = Inr Failed"
  by (simp add: classify_def decode_disconnected)

lemma classify_disconnected_145131: "classify decode_json DISCONNECTED_BODY_145131 = Inr Failed"
  by (simp add: classify_def decode_disconnected_145131)

text \<open>
  Two URLs, a success body for the first and a 403 error body for the second: the
  summary is total 2, successful 1, rate limited 0, failed 1.
\<close>

lemma indexURL_success_and_denied:
  "indexURL decode_json ok_then_denied token [url_p1, url_p2]
     = ([[Post (post_request token url_p1)], [Post (post_request token url_p2)]],
        Inr \<lparr> total = 2, successful_urls = 1, error_429_count = 0, other_errors_count = 1 \<rparr>)"
  by (simp add: indexURL_def send_url_def range_3 ok_then_denied_def always_def
      count_result_classify classify_success classify_denied record_outcome_def)

section \<open>Permutations of the results\<close>

text \<open>
  C9: the loop over the results gives the same counters for every permutation of
  the results: it completes on a permutation \<open>ys\<close> of \<open>xs\<close> with the tally
  \<open>t'\<close> exactly when it completes on \<open>xs\<close> with \<open>t'\<close>.
\<close>

theorem count_results_permutation:
  assumes "mset ys = mset xs"
  shows "(count_results loads t ys = Inr t') = (count_results loads t xs = Inr t')"
proof -
  from assms have "set ys = set xs" by (rule mset_eq_setD)
  moreover have "add_counts loads t ys = add_counts loads t xs"
    by (simp add: add_counts_def count_outcome_mset[OF assms])
  ultimately show ?thesis by (simp add: count_results_iff)
qed

theorem count_results_permutation_witness:
  "mset [denied_response, rate_limited_response, success_response]
     = mset [success_response, denied_response, rate_limited_response]
   \<and> count_results decode_json (zero_tally 3)
       [success_response, denied_response, rate_limited_response]
     = Inr \<lparr> total = 3, successful_urls = 1, error_429_count = 1, other_errors_count = 1 \<rparr>
   \<and> count_results decode_json (zero_tally 3)
       [denied_response, rate_limited_response, success_response]
     = Inr \<lparr> total = 3, successful_urls = 1, error_429_count = 1, other_errors_count = 1 \<rparr>"
proof -
  have p: "mset [denied_response, rate_limited_response, success_response]
     = mset [success_response, denied_response, rate_limited_response]"
    by simp
  have c: "count_results decode_json (zero_tally 3)
       [success_response, denied_response, rate_limited_response]
     = Inr \<lparr> total = 3, successful_urls = 1, error_429_count = 1, other_errors_count = 1 \<rparr>"
    by (simp add: count_result_classify classify_success classify_denied classify_rate_limited
        record_outcome_def zero_tally_def)
  from count_results_permutation[OF p, of decode_json "zero_tally 3"] p c
  show ?thesis by simp
qed

section \<open>Classification of a decoded object\<close>

lemma classify_object:
  assumes "loads body = Inr (JObj d)"
  shows "classify loads body =
     (case map_of d ''error'' of
        None \<Rightarrow> Inr Success
      | Some err \<Rightarrow>
          (case py_getitem err ''code'' of
             Inl e \<Rightarrow> Inl e
           | Inr code \<Rightarrow> if py_eq_int code 429 then Inr RateLimited else Inr Failed))"
  using assms by (auto simp: classify_def split: option.splits sum.splits)

text \<open>
  C2, as the code has it: for a body that decodes to a JSON object, the loop body of
  \<^verbatim>\<open>indexURL\<close> adds one to the successful counter when the object has no
  \<^verbatim>\<open>error\<close> key, to the rate-limited counter when its \<^verbatim>\<open>error\<close> entry is an
  object whose \<^verbatim>\<open>code\<close> equals 429, and to the failed counter when that
  \<^verbatim>\<open>code\<close> is anything else.  When the \<^verbatim>\<open>error\<close> entry, if present, is an
  object with a \<^verbatim>\<open>code\<close> key, exactly one of the three counters is incremented.
  When the entry is present and is not an object, or has no \<^verbatim>\<open>code\<close> key,
  the subscript raises and no counter is incremented.
\<close>

theorem count_result_json_object:
  assumes "loads body = Inr (JObj d)"
  shows "(map_of d ''error'' = None \<longrightarrow>
            count_result loads t body = Inr (t\<lparr>successful_urls := successful_urls t + 1\<rparr>))
       \<and> (\<forall>e c. map_of d ''error'' = Some (JObj e) \<and> map_of e ''code'' = Some c
                  \<and> py_eq_int c 429 \<longrightarrow>
            count_result loads t body = Inr (t\<lparr>error_429_count := error_429_count t + 1\<rparr>))
       \<and> (\<forall>e c. map_of d ''error'' = Some (JObj e) \<and> map_of e ''code'' = Some c
                  \<and> \<not> py_eq_int c 429 \<longrightarrow>
            count_result loads t body
              = Inr (t\<lparr>other_errors_count := other_errors_count t + 1\<rparr>))
       \<and> ((map_of d ''error'' = None
            \<or> (\<exists>e c. map_of d ''error'' = Some (JObj e) \<and> map_of e ''code'' = Some c)) \<longrightarrow>
            (\<exists>!oc. count_result loads t body = Inr (record_outcome t oc)))
       \<and> (\<forall>v. map_of d ''error'' = Some v
                \<and> (\<forall>e. v = JObj e \<longrightarrow> map_of e ''code'' = None) \<longrightarrow>
            (\<exists>x. count_result loads t body = Inl x))"
proof -
  note co = classify_object[of loads body d, OF assms]
  show ?thesis
  proof (intro conjI allI impI)
    assume "map_of d ''error'' = None"
    then show "count_result loads t body = Inr (t\<lparr>successful_urls := successful_urls t + 1\<rparr>)"
      by (simp add: count_result_classify co record_outcome_def)
  next
    fix e c
    assume "map_of d ''error'' = Some (JObj e) \<and> map_of e ''code'' = Some c \<and> py_eq_int c 429"
    then show "count_result loads t body = Inr (t\<lparr>error_429_count := error_429_count t + 1\<rparr>)"
      by (simp add: count_result_classify co record_outcome_def)
  next
    fix e c
    assume "map_of d ''error'' = Some (JObj e) \<and> map_of e ''code'' = Some c
              \<and> \<not> py_eq_int c 429"
    then show "count_result loads t body
                 = Inr (t\<lparr>other_errors_count := other_errors_count t + 1\<rparr>)"
      by (simp add: count_result_classify co record_outcome_def)
  next
    assume "map_of d ''error'' = None
              \<or> (\<exists>e c. map_of d ''error'' = Some (JObj e) \<and> map_of e ''code'' = Some c)"
    then have "\<exists>oc. classify loads body = Inr oc"
      by (auto simp: co)
    then obtain oc where oc: "classify loads body = Inr oc" ..
    show "\<exists>!oc. count_result loads t body = Inr (record_outcome t oc)"
      using oc by (auto simp: count_result_classify dest: record_outcome_inj)
  next
    fix v
    assume v: "map_of d ''error'' = Some v \<and> (\<forall>e. v = JObj e \<longrightarrow> map_of e ''code'' = None)"
    then have "\<exists>x. py_getitem v ''code'' = Inl x"
      by (cases v) simp_all
    then show "\<exists>x. count_result loads t body = Inl x"
      using v by (auto simp: count_result_classify co)
  qed
qed

theorem count_result_json_object_witness:
  "decode_json success_response
     = Inr (JObj [(''urlNotificationMetadata'', JObj [(''url'', JStr ''https://a.example/p1'')])])
   \<and> count_result decode_json (zero_tally 1) success_response
     = Inr \<lparr> total = 1, successful_urls = 1, error_429_count = 0, other_errors_count = 0 \<rparr>
   \<and> count_result decode_json (zero_tally 1) rate_limited_response
     = Inr \<lparr> total = 1, successful_urls = 0, error_429_count = 1, other_errors_count = 0 \<rparr>
   \<and> count_result decode_json (zero_tally 1) denied_response
     = Inr \<lparr> total = 1, successful_urls = 0, error_429_count = 0, other_errors_count = 1 \<rparr>
   \<and> (\<exists>!oc. count_result decode_json (zero_tally 1) denied_response
               = Inr (record_outcome (zero_tally 1) oc))
   \<and> (\<exists>x. count_result decode_json (zero_tally 1) error_without_code = Inl x)"
proof -
  note s = count_result_json_object[where loads = decode_json and body = success_response
      and t = "zero_tally 1", OF decode_success]
  note r = count_result_json_object[where loads = decode_json and body = rate_limited_response
      and t = "zero_tally 1", OF decode_rate_limited]
  note d = count_result_json_object[where loads = decode_json and body = denied_response
      and t = "zero_tally 1", OF decode_denied]
  note w = count_result_json_object[where loads = decode_json and body = error_without_code
      and t = "zero_tally 1", OF decode_error_without_code]
  have "count_result decode_json (zero_tally 1) success_response
     = Inr \<lparr> total = 1, successful_urls = 1, error_429_count = 0, other_errors_count = 0 \<rparr>"
    using s by (simp add: zero_tally_def)
  moreover have "count_result decode_json (zero_tally 1) rate_limited_response
     = Inr \<lparr> total = 1, successful_urls = 0, error_429_count = 1, other_errors_count = 0 \<rparr>"
    using r by (simp add: zero_tally_def)
  moreover have "count_result decode_json (zero_tally 1) denied_response
     = Inr \<lparr> total = 1, successful_urls = 0, error_429_count = 0, other_errors_count = 1 \<rparr>"
    using d by (simp add: zero_tally_def)
  moreover have "\<exists>!oc. count_result decode_json (zero_tally 1) denied_response
               = Inr (record_outcome (zero_tally 1) oc)"
    using d[THEN conjunct2, THEN conjunct2, THEN conjunct2, THEN conjunct1] by simp
  moreover have "\<exists>x. count_result decode_json (zero_tally 1) error_without_code = Inl x"
    using w by simp
  ultimately show ?thesis using decode_success by simp
qed

text \<open>
  The claim as stated fails on the object \<^verbatim>\<open>{"error": {"message": "quota"}}\<close>:
  it decodes to an object, and the loop body raises \<^verbatim>\<open>KeyError('code')\<close> instead
  of incrementing a counter.
\<close>

theorem count_result_error_without_code_raises:
  "decode_json error_without_code = Inr (JObj [(''error'', JObj [(''message'', JStr ''quota'')])])
   \<and> count_result decode_json (zero_tally 1) error_without_code = Inl (KeyError ''code'')"
  by (simp add: decode_error_without_code count_result_def)

section \<open>Rate-limited responses\<close>

text \<open>
  C3, as the code has it: when every response is a well-formed 429 error body,
  \<^verbatim>\<open>send_url\<close> of the batch script sends exactly one request, sleeps not at all
  and returns the body, which the loop of \<^verbatim>\<open>indexURL\<close> counts as rate limited;
  \<^verbatim>\<open>send_single_url\<close> sends exactly three requests, sleeps 5 seconds times the
  attempt number after each of them (5, 10 and 15 seconds) and returns
  \<^verbatim>\<open>False\<close>.
\<close>

theorem rate_limited_body_attempts:
  assumes "\<forall>req k. session req k = Response body"
    and "loads body = Inr (JObj d)"
    and "map_of d ''error'' = Some (JObj e)"
    and "map_of e ''code'' = Some c"
    and "py_eq_int c 429"
    and "map_of e ''message'' = Some m"
  shows "send_url session http url = ([Post (post_request http url)], Inr body)
       \<and> count_result loads t body = Inr (t\<lparr>error_429_count := error_429_count t + 1\<rparr>)
       \<and> send_single_url loads session http url =
           ([Post (post_request_single http url), Sleep 5,
             Post (post_request_single http url), Sleep 10,
             Post (post_request_single http url), Sleep 15], False)"
proof (intro conjI)
  show "send_url session http url = ([Post (post_request http url)], Inr body)"
    using assms(1) by (simp add: send_url_def range_3)
  show "count_result loads t body = Inr (t\<lparr>error_429_count := error_429_count t + 1\<rparr>)"
    using assms(2-5) by (simp add: count_result_def)
  have "single_response loads k body = Inr ([Sleep ((k + 1) * 5)], False)" for k
    using assms(2-6) by (simp add: single_response_def)
  then show "send_single_url loads session http url =
           ([Post (post_request_single http url), Sleep 5,
             Post (post_request_single http url), Sleep 10,
             Post (post_request_single http url), Sleep 15], False)"
    using assms(1) by (simp add: send_single_url_def range_3)
qed

theorem rate_limited_body_attempts_witness:
  "(\<forall>req k. always (Response rate_limited_response) req k = Response rate_limited_response)
   \<and> decode_json rate_limited_response
       = Inr (JObj [(''error'', JObj [(''code'', JInt 429), (''message'', JStr ''x'')])])
   \<and> py_eq_int (JInt 429) 429
   \<and> send_url (always (Response rate_limited_response)) token url_p1
       = ([Post (post_request token url_p1)], Inr rate_limited_response)
   \<and> count_result decode_json (zero_tally 1) rate_limited_response
       = Inr \<lparr> total = 1, successful_urls = 0, error_429_count = 1, other_errors_count = 0 \<rparr>
   \<and> send_single_url decode_json (always (Response rate_limited_response)) token url_p1
       = ([Post (post_request_single token url_p1), Sleep 5,
           Post (post_request_single token url_p1), Sleep 10,
           Post (post_request_single token url_p1), Sleep 15], False)"
proof -
  have a: "\<forall>req k. always (Response rate_limited_response) req k = Response rate_limited_response"
    by (simp add: always_def)
  have e: "map_of [(''error'', JObj [(''code'', JInt 429), (''message'', JStr ''x'')])] ''error''
             = Some (JObj [(''code'', JInt 429), (''message'', JStr ''x'')])"
    by simp
  have c: "map_of [(''code'', JInt 429), (''message'', JStr ''x'')] ''code'' = Some (JInt 429)"
    by simp
  have p: "py_eq_int (JInt 429) 429"
    by simp
  have m: "map_of [(''code'', JInt 429), (''message'', JStr ''x'')] ''message'' = Some (JStr ''x'')"
    by simp
  from rate_limited_body_attempts[where loads = decode_json and t = "zero_tally 1"
      and session = "always (Response rate_limited_response)"
      and http = token and url = url_p1, OF a decode_rate_limited e c p m]
  show ?thesis using a p decode_rate_limited by (simp add: zero_tally_def)
qed

text \<open>
  The claim as stated fails for the batch script: with a session that answers every
  request with \<^verbatim>\<open>{"error": {"code": 429, "message": "x"}}\<close>, \<^verbatim>\<open>send_url\<close>
  sends one request, not three, and sleeps between no attempts.
\<close>

theorem send_url_rate_limited_single_attempt:
  "send_url (always (Response rate_limited_response)) token url_p1
     = ([Post (post_request token url_p1)], Inr rate_limited_response)
   \<and> length (posts (fst (send_url (always (Response rate_limited_response)) token url_p1))) = 1
   \<and> sleeps (fst (send_url (always (Response rate_limited_response)) token url_p1)) = []"
  by (simp add: send_url_def range_3 always_def posts_def sleeps_def)

section \<open>Bodies that are not JSON\<close>

text \<open>
  C4, as the code has it by design: for a response body that \<^verbatim>\<open>json.loads\<close>
  rejects, \<^verbatim>\<open>send_url\<close> of the batch script and of its snapshot send exactly one
  request, sleep not at all and return the body unchanged, and the loop of the
  snapshot's \<^verbatim>\<open>indexURL\<close> counts it as failed; \<^verbatim>\<open>send_single_url\<close> retries
  it: three requests, a sleep of 2 seconds after the first and the second, and the
  result \<^verbatim>\<open>False\<close>.
\<close>

theorem unparsable_body_attempts:
  assumes "\<forall>req k. session req k = Response body"
    and "loads body = Inl JSONDecodeError"
  shows "send_url session http url = ([Post (post_request http url)], Inr body)
       \<and> send_url_145131 session http url = ([Post (post_request_145131 http url)], Inr body)
       \<and> count_result_145131 loads t body
           = Inr (t\<lparr>other_errors_count := other_errors_count t + 1\<rparr>)
       \<and> send_single_url loads session http url =
           ([Post (post_request_single http url), Sleep 2,
             Post (post_request_single http url), Sleep 2,
             Post (post_request_single http url)], False)"
proof (intro conjI)
  show "send_url session http url = ([Post (post_request http url)], Inr body)"
    using assms(1) by (simp add: send_url_def range_3)
  show "send_url_145131 session http url = ([Post (post_request_145131 http url)], Inr body)"
    using assms(1) by (simp add: send_url_145131_def range_3)
  show "count_result_145131 loads t body
          = Inr (t\<lparr>other_errors_count := other_errors_count t + 1\<rparr>)"
    using assms(2) by (simp add: count_result_145131_def count_result_def)
  have "single_response loads k body = Inl JSONDecodeError" for k
    using assms(2) by (simp add: single_response_def)
  then show "send_single_url loads session http url =
           ([Post (post_request_single http url), Sleep 2,
             Post (post_request_single http url), Sleep 2,
             Post (post_request_single http url)], False)"
    using assms(1) by (simp add: send_single_url_def range_3 single_handler_def)
qed

theorem unparsable_body_attempts_witness:
  "(\<forall>req k. always (Response not_json) req k = Response not_json)
   \<and> decode_json not_json = Inl JSONDecodeError
   \<and> send_url (always (Response not_json)) token url_p1
       = ([Post (post_request token url_p1)], Inr not_json)
   \<and> send_url_145131 (always (Response not_json)) token url_p1
       = ([Post (post_request_145131 token url_p1)], Inr not_json)
   \<and> count_result_145131 decode_json (zero_tally 1) not_json
       = Inr \<lparr> total = 1, successful_urls = 0, error_429_count = 0, other_errors_count = 1 \<rparr>
   \<and> send_single_url decode_json (always (Response not_json)) token url_p1
       = ([Post (post_request_single token url_p1), Sleep 2,
           Post (post_request_single token url_p1), Sleep 2,
           Post (post_request_single token url_p1)], False)"
proof -
  have a: "\<forall>req k. always (Response not_json) req k = Response not_json"
    by (simp add: always_def)
  from unparsable_body_attempts[where loads = decode_json and t = "zero_tally 1"
      and session = "always (Response not_json)"
      and http = token and url = url_p1, OF a decode_not_json]
  show ?thesis using a decode_not_json by (simp add: zero_tally_def)
qed

text \<open>
  The claim as stated fails for the single-URL script: with a session that answers
  every request with \<^verbatim>\<open>not json\<close>, \<^verbatim>\<open>send_single_url\<close> sends three requests
  and sleeps twice.
\<close>

theorem send_single_url_unparsable_retries:
  "decode_json not_json = Inl JSONDecodeError
   \<and> length (posts (fst (send_single_url decode_json (always (Response not_json))
                            token url_p1))) = 3
   \<and> sleeps (fst (send_single_url decode_json (always (Response not_json)) token url_p1))
       = [2, 2]"
  by (simp add: decode_not_json send_single_url_def range_3 always_def single_response_def
      single_handler_def posts_def sleeps_def)

section \<open>Server disconnects\<close>

text \<open>
  C5, as the code has it: \<^verbatim>\<open>send_url\<close> of the batch script makes at most three
  attempts.  After each \<^verbatim>\<open>ServerDisconnectedError\<close> it sleeps a fixed 2 seconds
  (not 2 seconds times the attempt number); a response in attempt \<open>n + 1 \<le> 3\<close> is
  returned, and after three disconnects the function returns its own error body
  instead of raising.  \<^verbatim>\<open>send_single_url\<close> sleeps 2 seconds times the attempt
  number before each retry (2, then 4 seconds) and returns \<^verbatim>\<open>False\<close> after the
  third disconnect.
\<close>

theorem server_disconnected_backoff:
  assumes "n \<le> 3"
    and "\<forall>req k. k < n \<longrightarrow> session req k = Raises ServerDisconnectedError"
    and "n < 3 \<longrightarrow> (\<forall>req. session req n = Response body)"
  shows "send_url session http url =
           (concat (replicate n [Post (post_request http url), Sleep 2])
              @ (if n < 3 then [Post (post_request http url)] else []),
            Inr (if n < 3 then body else DISCONNECTED_BODY))
       \<and> (n = 3 \<longrightarrow> send_single_url loads session http url =
           ([Post (post_request_single http url), Sleep 2,
             Post (post_request_single http url), Sleep 4,
             Post (post_request_single http url)], False))"
proof -
  have rep: "replicate 2 x = [x, x]" "replicate 3 x = [x, x, x]" for x :: "event list"
    by (simp_all add: numeral_2_eq_2 numeral_3_eq_3)
  from assms(1) consider "n = 0" | "n = 1" | "n = 2" | "n = 3" by linarith
  then show ?thesis
  proof cases
    case 1
    then show ?thesis using assms(3) by (simp add: send_url_def range_3)
  next
    case 2
    then show ?thesis using assms(2,3) by (simp add: send_url_def range_3)
  next
    case 3
    then have "session req 0 = Raises ServerDisconnectedError"
      and "session req 1 = Raises ServerDisconnectedError"
      and "session req 2 = Response body" for req
      using assms(2,3) by simp_all
    then show ?thesis using 3
      by (simp add: send_url_def range_3 rep)
  next
    case 4
    then have "session req 0 = Raises ServerDisconnectedError"
      and "session req 1 = Raises ServerDisconnectedError"
      and "session req 2 = Raises ServerDisconnectedError" for req
      using assms(2) by simp_all
    then show ?thesis using 4
      by (simp add: send_url_def send_single_url_def range_3 single_handler_def rep)
  qed
qed

theorem server_disconnected_backoff_witness:
  "(3::nat) \<le> 3
   \<and> (\<forall>req k. always (Raises ServerDisconnectedError) req k = Raises ServerDisconnectedError)
   \<and> send_url (always (Raises ServerDisconnectedError)) token url_p1
       = ([Post (post_request token url_p1), Sleep 2,
           Post (post_request token url_p1), Sleep 2,
           Post (post_request token url_p1), Sleep 2], Inr DISCONNECTED_BODY)
   \<and> send_single_url decode_json (always (Raises ServerDisconnectedError)) token url_p1
       = ([Post (post_request_single token url_p1), Sleep 2,
           Post (post_request_single token url_p1), Sleep 4,
           Post (post_request_single token url_p1)], False)
   \<and> (1::nat) < 3
   \<and> (\<forall>req. disconnecting 1 (Response success_response) req 0
               = Raises ServerDisconnectedError)
   \<and> (\<forall>req. disconnecting 1 (Response success_response) req 1 = Response success_response)
   \<and> send_url (disconnecting 1 (Response success_response)) token url_p1
       = ([Post (post_request token url_p1), Sleep 2, Post (post_request token url_p1)],
          Inr success_response)"
proof -
  have n: "(3::nat) \<le> 3" by simp
  have a: "\<forall>req k. k < 3 \<longrightarrow>
             always (Raises ServerDisconnectedError) req k = Raises ServerDisconnectedError"
    by (simp add: always_def)
  have r: "(3::nat) < 3 \<longrightarrow>
             (\<forall>req. always (Raises ServerDisconnectedError) req 3 = Response [])"
    by simp
  have rep: "replicate 3 x = [x, x, x]" for x :: "event list"
    by (simp add: numeral_3_eq_3)
  have three: "send_url (always (Raises ServerDisconnectedError)) token url_p1
       = ([Post (post_request token url_p1), Sleep 2,
           Post (post_request token url_p1), Sleep 2,
           Post (post_request token url_p1), Sleep 2], Inr DISCONNECTED_BODY)
   \<and> send_single_url decode_json (always (Raises ServerDisconnectedError)) token url_p1
       = ([Post (post_request_single token url_p1), Sleep 2,
           Post (post_request_single token url_p1), Sleep 4,
           Post (post_request_single token url_p1)], False)"
    using server_disconnected_backoff[where n = 3 and loads = decode_json
      and session = "always (Raises ServerDisconnectedError)" and body = "[]"
      and http = token and url = url_p1, OF n a r]
    by (simp add: rep)
  have n1: "(1::nat) \<le> 3" by simp
  have a1: "\<forall>req k. k < 1 \<longrightarrow>
             disconnecting 1 (Response success_response) req k = Raises ServerDisconnectedError"
    by (simp add: disconnecting_def)
  have r1: "(1::nat) < 3 \<longrightarrow>
             (\<forall>req. disconnecting 1 (Response success_response) req 1
                      = Response success_response)"
    by (simp add: disconnecting_def)
  have one: "send_url (disconnecting 1 (Response success_response)) token url_p1
       = ([Post (post_request token url_p1), Sleep 2, Post (post_request token url_p1)],
          Inr success_response)"
    using server_disconnected_backoff[where n = 1 and loads = decode_json
      and session = "disconnecting 1 (Response success_response)" and body = success_response
      and http = token and url = url_p1, OF n1 a1 r1]
    by simp
  show ?thesis using three one by (simp add: always_def disconnecting_def)
qed

text \<open>
  The claim as stated fails for the batch script: after the second disconnect
  \<^verbatim>\<open>send_url\<close> sleeps 2 seconds, not 4.
\<close>

theorem send_url_disconnected_fixed_sleep:
  "sleeps (fst (send_url (always (Raises ServerDisconnectedError)) token url_p1)) = [2, 2, 2]
   \<and> length (posts (fst (send_url (always (Raises ServerDisconnectedError)) token url_p1))) = 3"
  by (simp add: send_url_def range_3 always_def posts_def sleeps_def)

section \<open>Exhausted retries in the tally\<close>

lemma send_url_three_disconnects:
  assumes "\<forall>k<3. session (post_request http url) k = Raises ServerDisconnectedError"
  shows "send_url session http url =
           ([Post (post_request http url), Sleep 2,
             Post (post_request http url), Sleep 2,
             Post (post_request http url), Sleep 2], Inr DISCONNECTED_BODY)"
proof -
  have "session (post_request http url) 0 = Raises ServerDisconnectedError"
    and "session (post_request http url) 1 = Raises ServerDisconnectedError"
    and "session (post_request http url) 2 = Raises ServerDisconnectedError"
    using assms by simp_all
  then show ?thesis by (simp add: send_url_def range_3)
qed

lemma gather_Inr_map: "gather rs = Inr xs \<Longrightarrow> rs = map Inr xs"
proof (induction rs arbitrary: xs rule: gather.induct)
  case 1
  then show ?case by simp
next
  case (2 e rs)
  then show ?case by simp
next
  case (3 x rs)
  then show ?case by (auto split: sum.splits)
qed

lemma count_outcome_insert:
  "count_outcome loads oc (before @ b # after)
     = count_outcome loads oc (before @ after) + (if classify loads b = Inr oc then 1 else 0)"
  by (simp add: count_outcome_def)

text \<open>A result with outcome \<open>oc\<close> put anywhere into the list adds that outcome.\<close>

lemma count_results_insert:
  assumes "classify loads b = Inr oc"
    and "count_results loads t (before @ after) = Inr t'"
  shows "count_results loads t (before @ b # after) = Inr (record_outcome t' oc)"
proof -
  from assms(2) have ok: "\<forall>r \<in> set (before @ after). \<exists>oc. classify loads r = Inr oc"
    and t': "t' = add_counts loads t (before @ after)"
    by (simp_all add: count_results_iff)
  have "add_counts loads t (before @ b # after)
          = record_outcome (add_counts loads t (before @ after)) oc"
    using assms(1)
    by (cases oc) (simp_all add: add_counts_def count_outcome_insert record_outcome_def)
  then show ?thesis using ok t' assms(1) by (auto simp: count_results_iff)
qed

lemma count_outcome_member:
  "b \<in> set results \<Longrightarrow> classify loads b = Inr oc \<Longrightarrow> 1 \<le> count_outcome loads oc results"
proof -
  assume "b \<in> set results" and "classify loads b = Inr oc"
  then have "filter (\<lambda>r. classify loads r = Inr oc) results \<noteq> []"
    by (auto simp: filter_empty_conv)
  then show ?thesis
    unfolding count_outcome_def by (cases "filter (\<lambda>r. classify loads r = Inr oc) results") simp_all
qed

text \<open>
  C10: after three disconnects \<^verbatim>\<open>send_url\<close> returns the text
  \<^verbatim>\<open>{"error": {"code": 500, "message": "Server Disconnected"}}\<close>.
  \<^verbatim>\<open>json.loads\<close> decodes that text to an object with an \<^verbatim>\<open>error\<close> entry of
  code 500, so the loop of \<^verbatim>\<open>indexURL\<close> counts it as failed, not as successful or
  rate limited, and the loop gives the same result when the text is replaced by any body
  that decodes to an object with an \<^verbatim>\<open>error\<close> entry of code 500.  In the tally:
  when the loop completes on the other results with \<open>t'\<close>, it completes with the text
  among them, with \<open>t'\<close> and one more failed; \<^verbatim>\<open>indexURL\<close> on that URL alone
  reports total 1, successful 0, rate limited 0, failed 1; and in every batch in which
  \<^verbatim>\<open>indexURL\<close> reaches its summary, a URL whose three attempts are disconnected
  is among the failed, the total is the number of URLs and the counters add up to it.
\<close>

theorem send_url_exhausted_counts_as_other:
  assumes "\<forall>k<3. session (post_request http url) k = Raises ServerDisconnectedError"
    and "loads DISCONNECTED_BODY =
           Inr (JObj [(''error'', JObj [(''code'', JInt 500),
                                        (''message'', JStr ''Server Disconnected'')])])"
  shows "snd (send_url session http url) = Inr DISCONNECTED_BODY
       \<and> count_result loads t DISCONNECTED_BODY
           = Inr (t\<lparr>other_errors_count := other_errors_count t + 1\<rparr>)
       \<and> (\<forall>body d e. loads body = Inr (JObj d) \<and> map_of d ''error'' = Some (JObj e)
                      \<and> map_of e ''code'' = Some (JInt 500) \<longrightarrow>
            count_results loads t (before @ DISCONNECTED_BODY # after)
              = count_results loads t (before @ body # after))
       \<and> (\<forall>t'. count_results loads t (before @ after) = Inr t' \<longrightarrow>
            count_results loads t (before @ DISCONNECTED_BODY # after)
              = Inr (t'\<lparr>other_errors_count := other_errors_count t' + 1\<rparr>))
       \<and> indexURL loads (\<lambda>i. session) http [url] =
           ([[Post (post_request http url), Sleep 2,
              Post (post_request http url), Sleep 2,
              Post (post_request http url), Sleep 2]],
            Inr \<lparr> total = 1, successful_urls = 0, error_429_count = 0,
                  other_errors_count = 1 \<rparr>)
       \<and> (\<forall>net urls i T.
             i < length urls
             \<and> (\<forall>k<3. net i (post_request http (urls ! i)) k = Raises ServerDisconnectedError)
             \<and> snd (indexURL loads net http urls) = Inr T \<longrightarrow>
               1 \<le> other_errors_count T \<and> total T = length urls
               \<and> successful_urls T + error_429_count T + other_errors_count T = total T)"
proof (intro conjI allI impI)
  note su = send_url_three_disconnects[of session http url, OF assms(1)]
  show "snd (send_url session http url) = Inr DISCONNECTED_BODY"
    by (simp add: su)
  have cd: "classify loads DISCONNECTED_BODY = Inr Failed"
    using assms(2) by (simp add: classify_def)
  then show "count_result loads t DISCONNECTED_BODY
           = Inr (t\<lparr>other_errors_count := other_errors_count t + 1\<rparr>)"
    by (simp add: count_result_classify record_outcome_def)
  show "indexURL loads (\<lambda>i. session) http [url] =
           ([[Post (post_request http url), Sleep 2,
              Post (post_request http url), Sleep 2,
              Post (post_request http url), Sleep 2]],
            Inr \<lparr> total = 1, successful_urls = 0, error_429_count = 0,
                  other_errors_count = 1 \<rparr>)"
    using cd by (simp add: indexURL_def su count_result_classify record_outcome_def)
  {
    fix body d e
    assume "loads body = Inr (JObj d) \<and> map_of d ''error'' = Some (JObj e)
              \<and> map_of e ''code'' = Some (JInt 500)"
    then have cb: "classify loads body = Inr Failed"
      by (simp add: classify_def)
    have "count_results loads t (before @ x # after) = count_results loads t (before @ y # after)"
      if "classify loads x = classify loads y" for x y
      using that
      by (induction before arbitrary: t) (simp_all add: count_result_classify split: sum.splits)
    then show "count_results loads t (before @ DISCONNECTED_BODY # after)
                = count_results loads t (before @ body # after)"
      using cd cb by simp
  }
  {
    fix t'
    assume "count_results loads t (before @ after) = Inr t'"
    from count_results_insert[OF cd this]
    show "count_results loads t (before @ DISCONNECTED_BODY # after)
            = Inr (t'\<lparr>other_errors_count := other_errors_count t' + 1\<rparr>)"
      by (simp add: record_outcome_def)
  }
  {
    fix net :: "nat \<Rightarrow> session" and urls :: "string list" and i T
    assume h: "i < length urls
             \<and> (\<forall>k<3. net i (post_request http (urls ! i)) k = Raises ServerDisconnectedError)
             \<and> snd (indexURL loads net http urls) = Inr T"
    let ?tasks = "map (\<lambda>(i, url). send_url (net i) http url) (enumerate 0 urls)"
    let ?t0 = "\<lparr> total = length urls, successful_urls = 0, error_429_count = 0,
                   other_errors_count = 0 \<rparr>"
    from h obtain results where g: "gather (map snd ?tasks) = Inr results"
      and c: "count_results loads ?t0 results = Inr T"
      by (auto simp: indexURL_def Let_def split: sum.splits)
    from h have "snd (send_url (net i) http (urls ! i)) = Inr DISCONNECTED_BODY"
      by (simp add: send_url_three_disconnects)
    moreover from h have "map snd ?tasks ! i = snd (send_url (net i) http (urls ! i))"
      by (simp add: nth_enumerate_eq)
    moreover have len: "length results = length urls"
      using gather_length[OF g] by simp
    moreover have "map snd ?tasks ! i = Inr (results ! i)"
      using gather_Inr_map[OF g] h len by (metis nth_map)
    ultimately have "results ! i = DISCONNECTED_BODY" by simp
    then have "DISCONNECTED_BODY \<in> set results"
      using h len by (metis nth_mem)
    from count_outcome_member[OF this cd] c
    have "1 \<le> other_errors_count T"
      by (simp add: count_results_iff add_counts_def)
    moreover from h have "total T = length urls \<and>
         successful_urls T + error_429_count T + other_errors_count T = total T"
      by (intro indexURL_tally_sum[of loads net http urls T]) simp
    ultimately show "1 \<le> other_errors_count T" and "total T = length urls"
      and "successful_urls T + error_429_count T + other_errors_count T = total T"
      by simp_all
  }
qed

theorem send_url_exhausted_counts_as_other_witness:
  "(\<forall>k. always (Raises ServerDisconnectedError) (post_request token url_p1) k
           = Raises ServerDisconnectedError)
   \<and> decode_json DISCONNECTED_BODY =
       Inr (JObj [(''error'', JObj [(''code'', JInt 500),
                                    (''message'', JStr ''Server Disconnected'')])])
   \<and> snd (send_url (always (Raises ServerDisconnectedError)) token url_p1)
       = Inr DISCONNECTED_BODY
   \<and> count_result decode_json (zero_tally 3) DISCONNECTED_BODY
       = Inr \<lparr> total = 3, successful_urls = 0, error_429_count = 0, other_errors_count = 1 \<rparr>
   \<and> decode_json server_error_response =
       Inr (JObj [(''error'', JObj [(''code'', JInt 500), (''message'', JStr ''Internal error'')])])
   \<and> count_results decode_json (zero_tally 3)
         [success_response, DISCONNECTED_BODY, rate_limited_response]
       = count_results decode_json (zero_tally 3)
         [success_response, server_error_response, rate_limited_response]
   \<and> count_results decode_json (zero_tally 3) [success_response, rate_limited_response]
       = Inr \<lparr> total = 3, successful_urls = 1, error_429_count = 1, other_errors_count = 0 \<rparr>
   \<and> count_results decode_json (zero_tally 3)
         [success_response, DISCONNECTED_BODY, rate_limited_response]
       = Inr \<lparr> total = 3, successful_urls = 1, error_429_count = 1, other_errors_count = 1 \<rparr>
   \<and> indexURL decode_json (\<lambda>i. always (Raises ServerDisconnectedError)) token [url_p1]
       = ([[Post (post_request token url_p1), Sleep 2,
            Post (post_request token url_p1), Sleep 2,
            Post (post_request token url_p1), Sleep 2]],
          Inr \<lparr> total = 1, successful_urls = 0, error_429_count = 0, other_errors_count = 1 \<rparr>)
   \<and> snd (indexURL decode_json ok_then_disconnected token [url_p1, url_p2])
       = Inr \<lparr> total = 2, successful_urls = 1, error_429_count = 0, other_errors_count = 1 \<rparr>
   \<and> 1 \<le> other_errors_count
            \<lparr> total = 2, successful_urls = 1, error_429_count = 0, other_errors_count = 1 \<rparr>"
proof -
  have a: "\<forall>k<3. always (Raises ServerDisconnectedError) (post_request token url_p1) k
             = Raises ServerDisconnectedError"
    by (simp add: always_def)
  note th = send_url_exhausted_counts_as_other[where loads = decode_json
      and session = "always (Raises ServerDisconnectedError)" and http = token and url = url_p1
      and t = "zero_tally 3" and before = "[success_response]"
      and after = "[rate_limited_response]", OF a decode_disconnected]
  note c1 = th[THEN conjunct1]
  note c2 = th[THEN conjunct2, THEN conjunct1]
  note c3 = th[THEN conjunct2, THEN conjunct2, THEN conjunct1]
  note c4 = th[THEN conjunct2, THEN conjunct2, THEN conjunct2, THEN conjunct1]
  note c5 = th[THEN conjunct2, THEN conjunct2, THEN conjunct2, THEN conjunct2, THEN conjunct1]
  note c6 = th[THEN conjunct2, THEN conjunct2, THEN conjunct2, THEN conjunct2, THEN conjunct2]
  have e: "count_results decode_json (zero_tally 3)
         ([success_response] @ DISCONNECTED_BODY # [rate_limited_response])
       = count_results decode_json (zero_tally 3)
         ([success_response] @ server_error_response # [rate_limited_response])"
    using c3[rule_format, of server_error_response] decode_server_error by simp
  have r: "count_results decode_json (zero_tally 3) ([success_response] @ [rate_limited_response])
       = Inr \<lparr> total = 3, successful_urls = 1, error_429_count = 1, other_errors_count = 0 \<rparr>"
    by (simp add: count_result_classify classify_success classify_rate_limited
        record_outcome_def zero_tally_def)
  have w: "count_results decode_json (zero_tally 3)
         ([success_response] @ DISCONNECTED_BODY # [rate_limited_response])
       = Inr \<lparr> total = 3, successful_urls = 1, error_429_count = 1, other_errors_count = 1 \<rparr>"
    using c4[rule_format, OF r] by simp
  have b: "snd (indexURL decode_json ok_then_disconnected token [url_p1, url_p2])
       = Inr \<lparr> total = 2, successful_urls = 1, error_429_count = 0, other_errors_count = 1 \<rparr>"
    by (simp add: indexURL_def send_url_def range_3 ok_then_disconnected_def always_def
        count_result_classify classify_success classify_disconnected record_outcome_def)
  have i: "(1::nat) < length [url_p1, url_p2]
      \<and> (\<forall>k<3. ok_then_disconnected 1 (post_request token ([url_p1, url_p2] ! 1)) k
                  = Raises ServerDisconnectedError)
      \<and> snd (indexURL decode_json ok_then_disconnected token [url_p1, url_p2])
          = Inr \<lparr> total = 2, successful_urls = 1, error_429_count = 0, other_errors_count = 1 \<rparr>"
    using b by (simp add: ok_then_disconnected_def always_def)
  have l: "1 \<le> other_errors_count
            \<lparr> total = 2, successful_urls = 1, error_429_count = 0, other_errors_count = 1 \<rparr>"
    using c6[rule_format, OF i] by simp
  show ?thesis
    using c1 c2 c5 e r w b l decode_disconnected decode_server_error
    by (simp add: zero_tally_def always_def)
qed

section \<open>What the snapshot catches and the current script does not\<close>

text \<open>
  The snapshot's \<^verbatim>\<open>send_url\<close> returns a body whatever the session does: its
  second handler catches every exception.
\<close>

lemma send_url_attempts_145131_returns:
  "\<exists>body. snd (send_url_attempts_145131 session req as) = Inr body"
  by (induction as) (auto split: reply.splits prod.splits)

lemma send_url_145131_returns: "\<exists>body. snd (send_url_145131 session http url) = Inr body"
  unfolding send_url_145131_def by (rule send_url_attempts_145131_returns)

text \<open>Every request of a submission is the one built from the token and the URL.\<close>

lemma send_url_attempts_posts:
  "set (posts (fst (send_url_attempts session req as))) \<subseteq> {req}"
  by (induction as) (auto simp: posts_def split: reply.splits prod.splits)

lemma send_url_attempts_145131_posts:
  "set (posts (fst (send_url_attempts_145131 session req as))) \<subseteq> {req}"
  by (induction as) (auto simp: posts_def split: reply.splits prod.splits)

lemma classify_not_json: "classify decode_json not_json = Inl JSONDecodeError"
  by (simp add: classify_def decode_not_json)

text \<open>
  C1, at a failing input.  The session answers the first URL with a success body and
  the second with \<^verbatim>\<open>not json\<close>.  \<^verbatim>\<open>indexURL\<close> of
  \<^verbatim>\<open>backend/indexing_script.py\<close> sends both requests and then raises
  \<^verbatim>\<open>JSONDecodeError\<close> out of its loop: it reports no tally.  The snapshot
  \<^verbatim>\<open>indexing_script_20251127145131.py\<close> catches the exception and reports total 2,
  successful 1, failed 1.
\<close>

theorem indexURL_unparsable_body_raises:
  "indexURL decode_json ok_then_not_json token [url_p1, url_p2]
     = ([[Post (post_request token url_p1)], [Post (post_request token url_p2)]],
        Inl JSONDecodeError)
   \<and> snd (indexURL_145131 decode_json ok_then_not_json token [url_p1, url_p2])
     = Inr \<lparr> total = 2, successful_urls = 1, error_429_count = 0, other_errors_count = 1 \<rparr>"
  by (simp add: indexURL_def indexURL_145131_def send_url_def send_url_145131_def range_3
      ok_then_not_json_def always_def count_result_145131_def count_result_classify
      classify_success classify_not_json record_outcome_def)

text \<open>
  C6, at a failing input.  The session raises \<^verbatim>\<open>TimeoutError\<close> for the first URL
  and answers the second with a success body.  \<^verbatim>\<open>send_url\<close> of
  \<^verbatim>\<open>backend/indexing_script.py\<close> catches \<^verbatim>\<open>ServerDisconnectedError\<close> only,
  so the exception leaves \<^verbatim>\<open>send_url\<close>, \<^verbatim>\<open>asyncio.gather\<close> and
  \<^verbatim>\<open>indexURL\<close>: no tally.  The snapshot catches it in \<^verbatim>\<open>send_url\<close> and
  reports total 2, successful 1, failed 1.
\<close>

theorem indexURL_unexpected_exception_raises:
  "snd (send_url (always (Raises TimeoutError)) token url_p1) = Inl TimeoutError
   \<and> snd (indexURL decode_json timeout_then_ok token [url_p1, url_p2]) = Inl TimeoutError
   \<and> snd (indexURL_145131 decode_json timeout_then_ok token [url_p1, url_p2])
     = Inr \<lparr> total = 2, successful_urls = 1, error_429_count = 0, other_errors_count = 1 \<rparr>"
  by (simp add: indexURL_def indexURL_145131_def send_url_def send_url_145131_def range_3
      timeout_then_ok_def always_def count_result_145131_def count_result_classify
      classify_success classify_disconnected_145131 record_outcome_def)

text \<open>
  \<open>strip\<close> removes a run of whitespace at each end and nothing else, and what it
  returns neither starts nor ends with whitespace.
\<close>

lemma strip_decomposition:
  "url = takeWhile py_isspace url @ strip url
           @ rev (takeWhile py_isspace (rev (dropWhile py_isspace url)))"
proof -
  let ?ys = "dropWhile py_isspace url"
  have "?ys = strip url @ rev (takeWhile py_isspace (rev ?ys))"
    unfolding strip_def by (metis rev_append rev_rev_ident takeWhile_dropWhile_id)
  moreover have "url = takeWhile py_isspace url @ ?ys"
    by simp
  ultimately show ?thesis by metis
qed

lemma strip_ends:
  assumes "strip url \<noteq> []"
  shows "\<not> py_isspace (hd (strip url)) \<and> \<not> py_isspace (last (strip url))"
proof -
  let ?ys = "dropWhile py_isspace url"
  let ?zs = "dropWhile py_isspace (rev ?ys)"
  from assms have zs: "?zs \<noteq> []" by (simp add: strip_def)
  then have "\<not> py_isspace (hd ?zs)" by (rule hd_dropWhile)
  then have l: "\<not> py_isspace (last (strip url))"
    using zs by (simp add: strip_def last_rev)
  from zs have ys: "?ys \<noteq> []" by (metis dropWhile.simps(1) rev_is_Nil_conv)
  then have h: "\<not> py_isspace (hd ?ys)" by (rule hd_dropWhile)
  have "?ys = strip url @ rev (takeWhile py_isspace (rev ?ys))"
    using strip_decomposition[of url] by (metis same_append_eq takeWhile_dropWhile_id)
  then have "hd ?ys = hd (strip url)" using assms by (metis hd_append2)
  with h l show ?thesis by simp
qed

text \<open>
  C7, at a failing input.  For the URL \<^verbatim>\<open>"  https://a.example/p1 "\<close> and the token
  \<^verbatim>\<open>tok\<close>, \<^verbatim>\<open>send_url\<close> of \<^verbatim>\<open>backend/indexing_script.py\<close> posts to the
  endpoint the trimmed URL with type \<^verbatim>\<open>URL_UPDATED\<close> and the header
  \<^verbatim>\<open>Authorization: Bearer tok\<close>, with no timeout argument.  The snapshot passes a
  total timeout of 30 seconds.
\<close>

theorem send_url_request_without_timeout:
  "posts (fst (send_url (always (Response success_response)) token url_p1_padded))
     = [\<lparr> endpoint = ''https://indexing.googleapis.com/v3/urlNotifications:publish'',
          json_content = [(''url'', ''https://a.example/p1''), (''type'', ''URL_UPDATED'')],
          headers = [(''Authorization'', ''Bearer tok'')],
          ssl = False,
          timeout = None \<rparr>]
   \<and> map timeout
         (posts (fst (send_url_145131 (always (Response success_response)) token url_p1_padded)))
     = [Some 30]"
proof -
  have "strip url_p1_padded = ''https://a.example/p1''"
    unfolding url_p1_padded_def by code_simp
  then show ?thesis
    by (simp add: send_url_def send_url_145131_def range_3 always_def posts_def
        post_request_def post_request_145131_def ENDPOINT_def token_def)
qed

end
